theory Spec2Isabelle
  imports Complex_Main "HOL-Library.Log_Nat"
begin

section \<open>Board-native points and the unit conversion\<close>

text \<open>
  A \<^verbatim>\<open>pcbnew.wxPoint\<close> is a pair of integer coordinates in board units; the only
  operation the module uses on it is the componentwise difference \<^verbatim>\<open>l - self.center\<close>.
  Coordinates are taken as unbounded integers.
\<close>

record wxPoint =
  wx :: int
  wy :: int

definition wx_sub :: "wxPoint \<Rightarrow> wxPoint \<Rightarrow> wxPoint" where
  "wx_sub a b = \<lparr>wx = wx a - wx b, wy = wy a - wy b\<rparr>"

text \<open>
  Python floats are IEEE binary64 numbers. Every finite double is a rational number, so a
  double is represented by the rational it denotes (the sign of a zero is lost; Python's
  \<^verbatim>\<open>-0.0 == 0\<close> holds as well). The result of an arithmetic operation is the exact
  result rounded to the nearest double, ties to the even significand: a significand of 53
  bits, so the rounding unit of \<open>x\<close> is \<open>2 ^ (k - 52)\<close> where \<open>2 ^ k \<le> |x| < 2 ^ (k + 1)\<close>.
  \<open>round_double\<close> is this rounding on the normal range of binary64 (magnitudes from
  \<open>2 ^ -1022\<close> up to the overflow threshold), which holds every quotient of a nonzero
  32-bit integer by \<open>10 ^ 6\<close>.
\<close>

definition pow2 :: "int \<Rightarrow> rat" where
  "pow2 e = (if 0 \<le> e then 2 ^ nat e else 1 / 2 ^ nat (- e))"

definition round_half_even :: "rat \<Rightarrow> int" where
  "round_half_even m =
     (let f = \<lfloor>m\<rfloor>; r = m - of_int f
      in if r < 1 / 2 then f else if 1 / 2 < r then f + 1 else if even f then f else f + 1)"

text \<open>The exponent \<open>k\<close> with \<open>2 ^ k \<le> |x| < 2 ^ (k + 1)\<close>, for \<open>x \<noteq> 0\<close>.\<close>

definition binade :: "rat \<Rightarrow> int" where
  "binade x =
     (let (a, b) = quotient_of \<bar>x\<bar>; k = bitlen a - bitlen b
      in if pow2 k \<le> \<bar>x\<bar> then k else k - 1)"

definition round_double :: "rat \<Rightarrow> rat" where
  "round_double x =
     (if x = 0 then 0
      else let q = pow2 (binade x - 52) in of_int (round_half_even (x / q)) * q)"

definition IU_PER_MM :: rat where
  "IU_PER_MM = 1000000"

text \<open>
  Modelled from the spec: \<^verbatim>\<open>iu2mm = pcbnew.Iu2Millimeter\<close> is a function of the board
  library, absent from this repository. The spec describes it as the conversion of the
  board's integer distance unit to floating-point millimeters by a fixed, publicly
  documented factor, and uses a scale of 1,000,000 units to the millimeter (board units
  are nanometers): the double nearest to \<open>iu / 10 ^ 6\<close>.
\<close>

definition iu2mm :: "int \<Rightarrow> rat" where
  "iu2mm iu = round_double (of_int iu / IU_PER_MM)"

section \<open>The coordinate mapper\<close>

record Board =
  center :: wxPoint

text \<open>
  \<^verbatim>\<open>def p(self, l): rel = l - self.center; return iu2mm(rel.x), -iu2mm(rel.y)\<close>
\<close>

definition p :: "Board \<Rightarrow> wxPoint \<Rightarrow> rat \<times> rat" where
  "p self l = (let rel = wx_sub l (center self) in (iu2mm (wx rel), - iu2mm (wy rel)))"

section \<open>Errors\<close>

text \<open>
  The exceptions of the module and of the libraries it calls. \<open>KernelError\<close> stands for
  any exception raised inside a call of the geometry kernel (\<^verbatim>\<open>ValueError\<close>,
  \<^verbatim>\<open>StdFail_NotDone\<close>, ...).
\<close>

datatype error =
    NotImplementedError int
  | IndexError
  | AssertionError
  | Standard_OutOfRange
  | KernelError

definition bind :: "error + 'a \<Rightarrow> ('a \<Rightarrow> error + 'b) \<Rightarrow> error + 'b" where
  "bind m f = (case m of Inl e \<Rightarrow> Inl e | Inr v \<Rightarrow> f v)"

section \<open>The curve-construction helper\<close>

text \<open>
  The kernel's arrays \<^verbatim>\<open>TColgp_Array1OfPnt(1, n)\<close>, \<^verbatim>\<open>TColStd_Array1OfReal(1, n)\<close> and
  \<^verbatim>\<open>TColStd_Array1OfInteger(1, n)\<close> are indexed from their lower bound; each is a list of
  its \<open>upper - lower + 1\<close> cells, and an index outside the bounds is an error.
\<close>

type_synonym gp_Pnt = "rat \<times> rat \<times> rat"

record 'a Array1 =
  Lower :: int
  Cells :: "'a list"

definition Array1 :: "int \<Rightarrow> int \<Rightarrow> 'a \<Rightarrow> 'a Array1" where
  "Array1 lo hi d = \<lparr>Lower = lo, Cells = replicate (nat (hi - lo + 1)) d\<rparr>"

definition SetValue :: "'a Array1 \<Rightarrow> int \<Rightarrow> 'a \<Rightarrow> error + 'a Array1" where
  "SetValue a i v =
     (if Lower a \<le> i \<and> i < Lower a + int (length (Cells a))
      then Inr (a\<lparr>Cells := (Cells a)[nat (i - Lower a) := v]\<rparr>)
      else Inl Standard_OutOfRange)"

text \<open>\<^verbatim>\<open>cq.Vector(v).toPnt()\<close> for a pair \<open>v\<close>: the point of the plane \<open>z = 0\<close>.\<close>

definition toPnt :: "rat \<times> rat \<Rightarrow> gp_Pnt" where
  "toPnt v = (fst v, snd v, 0)"

record Geom_BSplineCurve =
  Poles :: "gp_Pnt Array1"
  Knots :: "rat Array1"
  Multiplicities :: "int Array1"
  Degree :: int

datatype Edge = MakeEdge Geom_BSplineCurve

text \<open>
  \<^verbatim>\<open>for i, v in enumerate(points): pnts.SetValue(i + 1, cq.Vector(v).toPnt())\<close>
\<close>

fun set_points :: "(nat \<times> (rat \<times> rat)) list \<Rightarrow> gp_Pnt Array1 \<Rightarrow> error + gp_Pnt Array1" where
  "set_points [] pnts = Inr pnts"
| "set_points ((i, v) # ivs) pnts =
     bind (SetValue pnts (int i + 1) (toPnt v)) (set_points ivs)"

definition bspline :: "(rat \<times> rat) list \<Rightarrow> error + Edge" where
  "bspline points =
     (if length points \<noteq> 4 then Inl AssertionError
      else
        bind (set_points (enumerate 0 points) (Array1 1 4 (0, 0, 0))) (\<lambda>pnts.
        bind (SetValue (Array1 1 2 0) 1 0) (\<lambda>knots.
        bind (SetValue knots 2 1) (\<lambda>knots.
        bind (SetValue (Array1 1 2 0) 1 4) (\<lambda>mults.
        bind (SetValue mults 2 4) (\<lambda>mults.
        Inr (MakeEdge \<lparr>Poles = pnts, Knots = knots, Multiplicities = mults, Degree = 3\<rparr>)))))))"

section \<open>Board shapes and the sketch\<close>

text \<open>
  A \<^verbatim>\<open>pcbnew.PCB_SHAPE\<close> is read through its getters only; the record holds what each
  getter returns. \<open>GetPolyShape\<close> is the vertex list of the polygon outline:
  \<^verbatim>\<open>CVertex(0).getWxPoint()\<close>, ..., \<^verbatim>\<open>CVertex(VertexCount() - 1).getWxPoint()\<close>.
\<close>

record PCB_SHAPE =
  GetShape :: int
  GetStart :: wxPoint
  GetEnd :: wxPoint
  GetArcMid :: wxPoint
  GetCenter :: wxPoint
  GetRadius :: int
  GetBezierC1 :: wxPoint
  GetBezierC2 :: wxPoint
  GetPolyShape :: "wxPoint list"

text \<open>
  Modelled from the spec: the constants \<^verbatim>\<open>pcbnew.SHAPE_T_...\<close> belong to the board
  library and are absent from this repository. The spec has six distinct supported kinds
  and kinds outside them; the constants are the values of the library's enumeration
  \<^verbatim>\<open>SHAPE_T\<close> (segment, rect, arc, circle, poly, bezier, in this order from 0). The module
  compares \<^verbatim>\<open>shape.GetShape()\<close> with them by equality.
\<close>

definition SHAPE_T_SEGMENT :: int where "SHAPE_T_SEGMENT = 0"
definition SHAPE_T_RECT :: int where "SHAPE_T_RECT = 1"
definition SHAPE_T_ARC :: int where "SHAPE_T_ARC = 2"
definition SHAPE_T_CIRCLE :: int where "SHAPE_T_CIRCLE = 3"
definition SHAPE_T_POLY :: int where "SHAPE_T_POLY = 4"
definition SHAPE_T_BEZIER :: int where "SHAPE_T_BEZIER = 5"

text \<open>
  A \<^verbatim>\<open>cq.Sketch\<close> belongs to the geometry kernel. Every method the module calls returns
  the sketch it was called on, so a sketch is the sequence of calls carried out on it
  since \<^verbatim>\<open>cq.Sketch()\<close>, oldest first.
\<close>

datatype sketch_call =
    Arc "rat \<times> rat" "rat \<times> rat" "rat \<times> rat"
  | Segment "rat \<times> rat" "rat \<times> rat"
  | Push "(rat \<times> rat) list"
  | Circle rat
  | Rect rat rat
  | Reset
  | AddEdge Edge
  | Polygon "(rat \<times> rat) list"
  | Assemble

type_synonym Sketch = "sketch_call list"

text \<open>
  The methods \<^verbatim>\<open>arc\<close>, \<^verbatim>\<open>segment\<close>, \<^verbatim>\<open>circle\<close>, \<^verbatim>\<open>polygon\<close> and \<^verbatim>\<open>assemble\<close> build
  geometry and raise when the kernel cannot build it: a segment of length zero, a circle
  of radius zero, a polygon ring of coincident points, edges that form no face. The
  module calls them outside any \<^verbatim>\<open>try\<close>, so the exception ends \<^verbatim>\<open>convert_shape\<close>.
  The kernel is not part of this repository: which call it carries out on which sketch is
  the parameter \<open>K\<close> of the model, and every theorem holds for every \<open>K\<close>.
\<close>

type_synonym Kernel = "Sketch \<Rightarrow> sketch_call \<Rightarrow> bool"

definition kernel_call :: "Kernel \<Rightarrow> Sketch \<Rightarrow> sketch_call \<Rightarrow> error + Sketch" where
  "kernel_call K sk c = (if K sk c then Inr (sk @ [c]) else Inl KernelError)"

definition arc ::
  "Kernel \<Rightarrow> Sketch \<Rightarrow> rat \<times> rat \<Rightarrow> rat \<times> rat \<Rightarrow> rat \<times> rat \<Rightarrow> error + Sketch" where
  "arc K sk p1 p2 p3 = kernel_call K sk (Arc p1 p2 p3)"

definition segment :: "Kernel \<Rightarrow> Sketch \<Rightarrow> rat \<times> rat \<Rightarrow> rat \<times> rat \<Rightarrow> error + Sketch" where
  "segment K sk p1 p2 = kernel_call K sk (Segment p1 p2)"

definition circle :: "Kernel \<Rightarrow> Sketch \<Rightarrow> rat \<Rightarrow> error + Sketch" where
  "circle K sk r = kernel_call K sk (Circle r)"

definition polygon :: "Kernel \<Rightarrow> Sketch \<Rightarrow> (rat \<times> rat) list \<Rightarrow> error + Sketch" where
  "polygon K sk pts = kernel_call K sk (Polygon pts)"

definition assemble :: "Kernel \<Rightarrow> Sketch \<Rightarrow> error + Sketch" where
  "assemble K sk = kernel_call K sk Assemble"

text \<open>
  \<^verbatim>\<open>push\<close> records the locations for the next call, \<^verbatim>\<open>reset\<close> forgets them and
  \<^verbatim>\<open>edge\<close> appends the edge it is given; \<^verbatim>\<open>rect\<close> is taken to build its face for every width
  and height.
\<close>

definition push :: "Sketch \<Rightarrow> (rat \<times> rat) list \<Rightarrow> Sketch" where
  "push sk locs = sk @ [Push locs]"

definition rect :: "Sketch \<Rightarrow> rat \<Rightarrow> rat \<Rightarrow> Sketch" where
  "rect sk w h = sk @ [Rect w h]"

definition reset :: "Sketch \<Rightarrow> Sketch" where
  "reset sk = sk @ [Reset]"

definition edge :: "Sketch \<Rightarrow> Edge \<Rightarrow> Sketch" where
  "edge sk e = sk @ [AddEdge e]"

section \<open>The shape assembler\<close>

text \<open>The three variables of the loop of \<^verbatim>\<open>convert_shape\<close>.\<close>

record acc =
  sketch :: Sketch
  line :: bool
  full :: int

text \<open>\<^verbatim>\<open>minmax = lambda *l: (min(l), max(l))\<close>, called with two arguments.\<close>

definition minmax :: "int \<Rightarrow> int \<Rightarrow> int \<times> int" where
  "minmax a b = (min a b, max a b)"

text \<open>
  One pass through the \<^verbatim>\<open>match\<close> statement: the cases in the order of the source, the
  last one raising \<^verbatim>\<open>NotImplementedError\<close> with the kind it was given. In the polygon
  case \<^verbatim>\<open>points[0]\<close> raises \<^verbatim>\<open>IndexError\<close> on an empty list, before the kernel is
  called.
\<close>

definition convert_case :: "Kernel \<Rightarrow> Board \<Rightarrow> acc \<Rightarrow> PCB_SHAPE \<Rightarrow> error + acc" where
  "convert_case K self a shape =
     (let s = GetShape shape in
      if s = SHAPE_T_ARC then
        bind (arc K (sketch a) (p self (GetStart shape)) (p self (GetArcMid shape))
                (p self (GetEnd shape)))
          (\<lambda>sk. Inr (a\<lparr>line := True, sketch := sk\<rparr>))
      else if s = SHAPE_T_SEGMENT then
        bind (segment K (sketch a) (p self (GetStart shape)) (p self (GetEnd shape)))
          (\<lambda>sk. Inr (a\<lparr>line := True, sketch := sk\<rparr>))
      else if s = SHAPE_T_CIRCLE then
        bind (circle K (push (sketch a) [p self (GetCenter shape)]) (iu2mm (GetRadius shape)))
          (\<lambda>sk. Inr (a\<lparr>full := full a + 1, sketch := sk\<rparr>))
      else if s = SHAPE_T_RECT then
        (let start = GetStart shape; end = GetEnd shape;
             (x, X) = minmax (wx start) (wx end);
             (y, Y) = minmax (wy start) (wy end)
         in Inr (a\<lparr>full := full a + 1,
                  sketch := reset (rect (push (sketch a) [p self (GetCenter shape)])
                                        (iu2mm (X - x)) (iu2mm (Y - y)))\<rparr>))
      else if s = SHAPE_T_BEZIER then
        bind (bspline (map (p self)
                [GetStart shape, GetBezierC1 shape, GetBezierC2 shape, GetEnd shape]))
          (\<lambda>e. Inr (a\<lparr>line := True, sketch := edge (sketch a) e\<rparr>))
      else if s = SHAPE_T_POLY then
        (let points = map (p self) (GetPolyShape shape) in
         case points of
           [] \<Rightarrow> Inl IndexError
         | p0 # _ \<Rightarrow>
             bind (polygon K (sketch a) (points @ [p0]))
               (\<lambda>sk. Inr (a\<lparr>full := full a + 1, sketch := sk\<rparr>)))
      else Inl (NotImplementedError s))"

text \<open>\<^verbatim>\<open>for shape in shapes: ...\<close>: an error ends the loop and the call.\<close>

fun convert_loop :: "Kernel \<Rightarrow> Board \<Rightarrow> PCB_SHAPE list \<Rightarrow> acc \<Rightarrow> error + acc" where
  "convert_loop K self [] a = Inr a"
| "convert_loop K self (shape # shapes) a =
     bind (convert_case K self a shape) (convert_loop K self shapes)"

definition both_warning :: string where
  "both_warning =
     ''convert_shape: both complete and incomplete shapes used, shape may be undefined''"

definition many_warning :: string where
  "many_warning =
     ''convert_shape: more than 1 complete shapes used, shape may be undefined''"

text \<open>The calls of \<^verbatim>\<open>warnings.warn\<close> after the loop, in the order they are made.\<close>

definition warn :: "acc \<Rightarrow> string list" where
  "warn a =
     (if 0 < full a \<and> line a then [both_warning] else []) @
     (if 1 < full a then [many_warning] else [])"

definition init :: acc where
  "init = \<lparr>sketch = [], line = False, full = 0\<rparr>"

text \<open>
  A call of \<^verbatim>\<open>convert_shape\<close> has two effects: the warnings it logs, and its outcome,
  which is the sketch it returns or the exception it raises. The warnings are logged after
  the loop and before \<^verbatim>\<open>sketch.assemble()\<close> is called in the \<^verbatim>\<open>return\<close> statement, so
  they are logged also when \<^verbatim>\<open>assemble\<close> raises; when the loop raises none is logged.
\<close>

definition convert_shape ::
  "Kernel \<Rightarrow> Board \<Rightarrow> PCB_SHAPE list \<Rightarrow> string list \<times> (error + Sketch)" where
  "convert_shape K self shapes =
     (case convert_loop K self shapes init of
        Inl e \<Rightarrow> ([], Inl e)
      | Inr a \<Rightarrow> (warn a, if line a then assemble K (sketch a) else Inr (sketch a)))"

text \<open>The categories of the shape kinds.\<close>

definition is_open :: "PCB_SHAPE \<Rightarrow> bool" where
  "is_open shape =
     (GetShape shape = SHAPE_T_ARC \<or> GetShape shape = SHAPE_T_SEGMENT
      \<or> GetShape shape = SHAPE_T_BEZIER)"

definition is_full :: "PCB_SHAPE \<Rightarrow> bool" where
  "is_full shape =
     (GetShape shape = SHAPE_T_CIRCLE \<or> GetShape shape = SHAPE_T_RECT
      \<or> GetShape shape = SHAPE_T_POLY)"

definition supported :: "PCB_SHAPE \<Rightarrow> bool" where
  "supported shape = (is_open shape \<or> is_full shape)"

text \<open>
  The calls the loop body makes on the sketch for one shape, when none of them raises:
  what the shape contributes to the accumulated sketch.
\<close>

definition emitted :: "Board \<Rightarrow> PCB_SHAPE \<Rightarrow> sketch_call list" where
  "emitted self shape =
     (let s = GetShape shape in
      if s = SHAPE_T_ARC then
        [Arc (p self (GetStart shape)) (p self (GetArcMid shape)) (p self (GetEnd shape))]
      else if s = SHAPE_T_SEGMENT then
        [Segment (p self (GetStart shape)) (p self (GetEnd shape))]
      else if s = SHAPE_T_CIRCLE then
        [Push [p self (GetCenter shape)], Circle (iu2mm (GetRadius shape))]
      else if s = SHAPE_T_RECT then
        [Push [p self (GetCenter shape)],
         Rect (iu2mm (max (wx (GetStart shape)) (wx (GetEnd shape))
                      - min (wx (GetStart shape)) (wx (GetEnd shape))))
              (iu2mm (max (wy (GetStart shape)) (wy (GetEnd shape))
                      - min (wy (GetStart shape)) (wy (GetEnd shape)))),
         Reset]
      else if s = SHAPE_T_BEZIER then
        [AddEdge (MakeEdge
           \<lparr>Poles = \<lparr>Lower = 1,
                      Cells = map (toPnt \<circ> p self)
                        [GetStart shape, GetBezierC1 shape, GetBezierC2 shape, GetEnd shape]\<rparr>,
            Knots = \<lparr>Lower = 1, Cells = [0, 1]\<rparr>,
            Multiplicities = \<lparr>Lower = 1, Cells = [4, 4]\<rparr>,
            Degree = 3\<rparr>)]
      else if s = SHAPE_T_POLY then
        [Polygon (map (p self) (GetPolyShape shape @ take 1 (GetPolyShape shape)))]
      else [])"

subsection \<open>A sample kernel, board and shapes\<close>

text \<open>
  A kernel for the concrete evaluations. It carries out a segment between two distinct
  points, an arc through three points not on a line, a circle of positive radius, a
  polygon ring with three distinct points or more, and \<^verbatim>\<open>assemble\<close> on three edges or
  more of which each starts where the one before ends and the last ends where the first
  starts. Like the library's kernel it rejects a segment of length zero, a circle of
  radius zero, a ring of coincident points and \<^verbatim>\<open>assemble\<close> on a single open segment.
\<close>

fun edge_ends :: "sketch_call \<Rightarrow> ((rat \<times> rat) \<times> (rat \<times> rat)) list" where
  "edge_ends (Arc p1 p2 p3) = [(p1, p3)]"
| "edge_ends (Segment p1 p2) = [(p1, p2)]"
| "edge_ends (AddEdge (MakeEdge c)) =
     (case Cells (Poles c) of
        [] \<Rightarrow> []
      | q # qs \<Rightarrow> [((fst q, fst (snd q)), (fst (last (q # qs)), fst (snd (last (q # qs)))))])"
| "edge_ends _ = []"

fun linked :: "((rat \<times> rat) \<times> (rat \<times> rat)) list \<Rightarrow> bool" where
  "linked (e1 # e2 # es) = (snd e1 = fst e2 \<and> linked (e2 # es))"
| "linked _ = True"

definition closed_chain :: "((rat \<times> rat) \<times> (rat \<times> rat)) list \<Rightarrow> bool" where
  "closed_chain es = (3 \<le> length es \<and> linked es \<and> snd (last es) = fst (hd es))"

fun kernel0 :: Kernel where
  "kernel0 sk (Arc p1 p2 p3) =
     ((fst p2 - fst p1) * (snd p3 - snd p1) \<noteq> (fst p3 - fst p1) * (snd p2 - snd p1))"
| "kernel0 sk (Segment p1 p2) = (p1 \<noteq> p2)"
| "kernel0 sk (Circle r) = (0 < r)"
| "kernel0 sk (Polygon pts) = (3 \<le> length (remdups pts))"
| "kernel0 sk Assemble = closed_chain (concat (map edge_ends sk))"
| "kernel0 sk _ = True"

definition board0 :: Board where
  "board0 = \<lparr>center = \<lparr>wx = 100000000, wy = 80000000\<rparr>\<rparr>"

definition sample_shape :: "int \<Rightarrow> PCB_SHAPE" where
  "sample_shape k =
     \<lparr>GetShape = k,
      GetStart = \<lparr>wx = 100000000, wy = 80000000\<rparr>,
      GetEnd = \<lparr>wx = 102000000, wy = 81000000\<rparr>,
      GetArcMid = \<lparr>wx = 101000000, wy = 80200000\<rparr>,
      GetCenter = \<lparr>wx = 101000000, wy = 80500000\<rparr>,
      GetRadius = 500000,
      GetBezierC1 = \<lparr>wx = 100500000, wy = 81000000\<rparr>,
      GetBezierC2 = \<lparr>wx = 101500000, wy = 80000000\<rparr>,
      GetPolyShape = [\<lparr>wx = 100000000, wy = 80000000\<rparr>, \<lparr>wx = 102000000, wy = 80000000\<rparr>,
                      \<lparr>wx = 102000000, wy = 81000000\<rparr>]\<rparr>"

text \<open>The segment from \<open>a\<close> to \<open>b\<close>, and the four sides of a rectangle of 2 mm by 1 mm.\<close>

definition sample_segment :: "wxPoint \<Rightarrow> wxPoint \<Rightarrow> PCB_SHAPE" where
  "sample_segment a b = (sample_shape SHAPE_T_SEGMENT)\<lparr>GetStart := a, GetEnd := b\<rparr>"

definition sample_outline :: "PCB_SHAPE list" where
  "sample_outline =
     [sample_segment \<lparr>wx = 100000000, wy = 80000000\<rparr> \<lparr>wx = 102000000, wy = 80000000\<rparr>,
      sample_segment \<lparr>wx = 102000000, wy = 80000000\<rparr> \<lparr>wx = 102000000, wy = 81000000\<rparr>,
      sample_segment \<lparr>wx = 102000000, wy = 81000000\<rparr> \<lparr>wx = 100000000, wy = 81000000\<rparr>,
      sample_segment \<lparr>wx = 100000000, wy = 81000000\<rparr> \<lparr>wx = 100000000, wy = 80000000\<rparr>]"

text \<open>A second circle, of radius 1 mm, apart from the circle of \<open>sample_shape\<close>.\<close>

definition sample_circle2 :: PCB_SHAPE where
  "sample_circle2 =
     (sample_shape SHAPE_T_CIRCLE)\<lparr>GetCenter := \<lparr>wx = 104000000, wy = 80500000\<rparr>,
                                  GetRadius := 1000000\<rparr>"

section \<open>Rounding to a double\<close>

lemma pow2_powi: "pow2 e = 2 powi e"
  by (simp add: pow2_def power_int_def inverse_eq_divide power_one_over)

lemma pow2_pos: "0 < pow2 e"
  by (simp add: pow2_powi)

lemma pow2_diff: "pow2 (a - b) = pow2 a / pow2 b"
  by (simp add: pow2_powi power_int_diff)

lemma pow2_add: "pow2 (a + b) = pow2 a * pow2 b"
  by (simp add: pow2_powi power_int_add)

lemma pow2_nat: "pow2 (int n) = 2 ^ n"
  by (simp add: pow2_def)


lemma bitlen_rat_bounds:
  fixes a :: int
  assumes "0 < a"
  shows "pow2 (bitlen a - 1) \<le> of_int a" "(of_int a :: rat) < pow2 (bitlen a)"
proof -
  have a: "2 ^ nat (bitlen a - 1) \<le> a" "a < 2 ^ nat (bitlen a)"
    using bitlen_bounds[OF assms] by auto
  have la: "1 \<le> bitlen a"
    using assms bitlen_eq_zero_iff[of a] bitlen_nonneg[of a] by linarith
  have "(of_int (2 ^ nat (bitlen a - 1)) :: rat) \<le> of_int a"
    using a(1) of_int_le_iff by blast
  then show "pow2 (bitlen a - 1) \<le> of_int a"
    using la by (simp add: pow2_def)
  have "(of_int a :: rat) < of_int (2 ^ nat (bitlen a))"
    using a(2) of_int_less_iff by blast
  then show "(of_int a :: rat) < pow2 (bitlen a)"
    using la by (simp add: pow2_def)
qed

lemma quotient_bounds:
  fixes a b :: int
  assumes "0 < a" "0 < b"
  shows "pow2 (bitlen a - bitlen b - 1) \<le> of_int a / of_int b"
    and "of_int a / of_int b < pow2 (bitlen a - bitlen b + 1)"
proof -
  note ra = bitlen_rat_bounds[OF assms(1)]
  note rb = bitlen_rat_bounds[OF assms(2)]
  have bpos: "(0::rat) < of_int b" using assms(2) by simp
  have apos: "(0::rat) < of_int a" using assms(1) by simp
  have "pow2 (bitlen a - bitlen b - 1) = pow2 (bitlen a - 1) / pow2 (bitlen b)"
    using pow2_diff[of "bitlen a - 1" "bitlen b"] by (simp add: algebra_simps)
  also have "\<dots> \<le> of_int a / of_int b"
    using ra(1) rb(2) bpos pow2_pos[of "bitlen a - 1"]
    by (intro frac_le) simp_all
  finally show "pow2 (bitlen a - bitlen b - 1) \<le> of_int a / of_int b" .
  have "of_int a / of_int b < pow2 (bitlen a) / pow2 (bitlen b - 1)"
    using ra(2) rb(1) apos pow2_pos[of "bitlen b - 1"]
    by (intro frac_less) simp_all
  also have "\<dots> = pow2 (bitlen a - bitlen b + 1)"
    using pow2_diff[of "bitlen a" "bitlen b - 1"] by (simp add: algebra_simps)
  finally show "of_int a / of_int b < pow2 (bitlen a - bitlen b + 1)" .
qed

lemma binade_bounds:
  assumes "x \<noteq> 0"
  shows "pow2 (binade x) \<le> \<bar>x\<bar>" and "\<bar>x\<bar> < pow2 (binade x + 1)"
proof -
  obtain a b where q: "quotient_of \<bar>x\<bar> = (a, b)" by (cases "quotient_of \<bar>x\<bar>")
  have b: "0 < b" using quotient_of_denom_pos[OF q] .
  have x: "\<bar>x\<bar> = of_int a / of_int b" using quotient_of_div[OF q] .
  have "0 < \<bar>x\<bar>" using assms by simp
  then have a: "0 < a" using x b by (simp add: zero_less_divide_iff)
  note qb = quotient_bounds[OF a b, folded x]
  show "pow2 (binade x) \<le> \<bar>x\<bar>"
    using qb(1) by (simp add: binade_def q Let_def)
  show "\<bar>x\<bar> < pow2 (binade x + 1)"
    using qb(2) by (auto simp add: binade_def q Let_def)
qed



lemma significand_range:
  assumes "x \<noteq> 0"
  shows "2 ^ 52 \<le> \<bar>x / pow2 (binade x - 52)\<bar>" and "\<bar>x / pow2 (binade x - 52)\<bar> < 2 ^ 53"
proof -
  have q: "pow2 (binade x - 52) = pow2 (binade x) / 2 ^ 52"
    using pow2_diff[of "binade x" 52] pow2_nat[of 52] by simp
  have e: "\<bar>x / pow2 (binade x - 52)\<bar> = \<bar>x\<bar> / pow2 (binade x) * 2 ^ 52"
    using pow2_pos[of "binade x"] by (simp add: q abs_mult)
  show "2 ^ 52 \<le> \<bar>x / pow2 (binade x - 52)\<bar>"
    unfolding e using binade_bounds(1)[OF assms] pow2_pos[of "binade x"]
    by (simp add: pos_le_divide_eq)
  have "pow2 (binade x + 1) = 2 * pow2 (binade x)"
    using pow2_add[of "binade x" 1] by (simp add: pow2_def[of 1])
  then show "\<bar>x / pow2 (binade x - 52)\<bar> < 2 ^ 53"
    unfolding e using binade_bounds(2)[OF assms] pow2_pos[of "binade x"]
    by (simp add: pos_divide_less_eq)
qed






lemma wx_sub_simps: "wx (wx_sub a b) = wx a - wx b" "wy (wx_sub a b) = wy a - wy b"
  by (simp_all add: wx_sub_def)

lemma round_double_0: "round_double 0 = 0"
  by (simp add: round_double_def)

lemma iu2mm_0: "iu2mm 0 = 0"
  by (simp add: iu2mm_def round_double_0)

section \<open>The coordinate mapper: claims C2 and C9\<close>

text \<open>
  Claim C2. For every board point \<open>l\<close> and origin \<open>center self\<close>, the mapper returns exactly
  \<open>(iu2mm (l.x - o.x), - iu2mm (l.y - o.y))\<close>; mapping the origin itself gives \<open>(0, 0)\<close>.
  The mapper is a total function of the point and the origin: it has no error result.
\<close>

theorem p_maps:
  "p self l = (iu2mm (wx l - wx (center self)), - iu2mm (wy l - wy (center self)))
   \<and> p self (center self) = (0, 0)"
  by (simp add: p_def Let_def wx_sub_simps iu2mm_0)



section \<open>The curve-construction helper: claims C4 and C5\<close>

lemma bind_simps: "bind (Inl e) f = Inl e" "bind (Inr v) f = f v"
  by (simp_all add: bind_def)

lemmas shape_t_defs = SHAPE_T_SEGMENT_def SHAPE_T_RECT_def SHAPE_T_ARC_def
  SHAPE_T_CIRCLE_def SHAPE_T_POLY_def SHAPE_T_BEZIER_def

lemma bspline_four:
  "bspline [a, b, c, d] =
     Inr (MakeEdge \<lparr>Poles = \<lparr>Lower = 1, Cells = [toPnt a, toPnt b, toPnt c, toPnt d]\<rparr>,
                    Knots = \<lparr>Lower = 1, Cells = [0, 1]\<rparr>,
                    Multiplicities = \<lparr>Lower = 1, Cells = [4, 4]\<rparr>,
                    Degree = 3\<rparr>)"
  by (simp add: bspline_def enumerate_eq_zip upt_rec bind_simps SetValue_def Array1_def numeral_eq_Suc)

lemma length_four: "length xs = 4 \<Longrightarrow> \<exists>a b c d. xs = [a, b, c, d]"
  by (auto simp: numeral_eq_Suc length_Suc_conv)

lemma init_simps: "sketch init = []" "line init = False" "full init = 0"
  by (simp_all add: init_def)

text \<open>
  Claim C4. Given four mapped control points, \<open>bspline\<close> builds one curve of degree 3 with
  the two knots 0 and 1, each of multiplicity 4, whose poles are the four points in order:
  the first pole is the first point and the last pole the fourth. The cubic-curve case of
  \<open>convert_shape\<close> passes it the images of the start point, the two control points and the
  end point, in this order, and adds the edge to the sketch.
\<close>

theorem bspline_clamped_cubic:
  "bspline [a, b, c, d] =
     Inr (MakeEdge \<lparr>Poles = \<lparr>Lower = 1, Cells = [toPnt a, toPnt b, toPnt c, toPnt d]\<rparr>,
                    Knots = \<lparr>Lower = 1, Cells = [0, 1]\<rparr>,
                    Multiplicities = \<lparr>Lower = 1, Cells = [4, 4]\<rparr>,
                    Degree = 3\<rparr>)
   \<and> convert_case K self acc (shape\<lparr>GetShape := SHAPE_T_BEZIER\<rparr>) =
     Inr (acc\<lparr>line := True,
          sketch := sketch acc @
            [AddEdge (MakeEdge
               \<lparr>Poles = \<lparr>Lower = 1,
                          Cells = map (toPnt \<circ> p self)
                            [GetStart shape, GetBezierC1 shape, GetBezierC2 shape, GetEnd shape]\<rparr>,
                Knots = \<lparr>Lower = 1, Cells = [0, 1]\<rparr>,
                Multiplicities = \<lparr>Lower = 1, Cells = [4, 4]\<rparr>,
                Degree = 3\<rparr>)]\<rparr>)"
  by (simp add: bspline_four convert_case_def Let_def shape_t_defs bind_simps edge_def)

text \<open>
  Claim C5. \<open>bspline\<close> fails exactly when the list of control points has a length other
  than 4, and the failure is the assertion's.
\<close>

theorem bspline_assertion:
  "(bspline pts = Inl AssertionError) = (length pts \<noteq> 4)
   \<and> (\<exists>e. bspline pts = Inl e) = (length pts \<noteq> 4)"
proof (cases "length pts = 4")
  case True
  then obtain a b c d where "pts = [a, b, c, d]" using length_four by blast
  then show ?thesis by (simp add: bspline_four)
next
  case False
  then show ?thesis by (simp add: bspline_def)
qed

theorem bspline_assertion_witness:
  "length [p board0 (center board0)] \<noteq> 4
   \<and> bspline [p board0 (center board0)] = Inl AssertionError
   \<and> length (replicate 4 (p board0 (center board0))) = 4
   \<and> (\<nexists>e. bspline (replicate 4 (p board0 (center board0))) = Inl e)"
  using bspline_assertion[of "[p board0 (center board0)]"]
    bspline_assertion[of "replicate 4 (p board0 (center board0))"]
  by simp

section \<open>The shape assembler\<close>

lemma kernel_call_Inr: "(kernel_call K sk c = Inr sk') = (K sk c \<and> sk' = sk @ [c])"
  by (auto simp: kernel_call_def)

lemma kernel_call_Inl: "(kernel_call K sk c = Inl e) = (\<not> K sk c \<and> e = KernelError)"
  by (auto simp: kernel_call_def)

lemmas kernel_defs = arc_def segment_def circle_def polygon_def assemble_def
  push_def rect_def reset_def edge_def

lemma bind_Inr: "(bind m f = Inr v) = (\<exists>u. m = Inr u \<and> f u = Inr v)"
  by (cases m) (simp_all add: bind_def)

lemma bind_Inl: "(bind m f = Inl e) = (m = Inl e \<or> (\<exists>u. m = Inr u \<and> f u = Inl e))"
  by (cases m) (simp_all add: bind_def)

lemma open_not_full: "is_open shape \<Longrightarrow> \<not> is_full shape"
  by (auto simp: is_open_def is_full_def shape_t_defs)

lemma convert_case_unsupported:
  "\<not> supported shape \<Longrightarrow>
     convert_case K self a shape = Inl (NotImplementedError (GetShape shape))"
  by (simp add: supported_def is_open_def is_full_def convert_case_def Let_def)

lemma convert_case_state:
  assumes "convert_case K self a shape = Inr a'"
  shows "line a' = (line a \<or> is_open shape)"
    and "full a' = full a + (if is_full shape then 1 else 0)"
    and "supported shape"
    and "sketch a' = sketch a @ emitted self shape"
  using assms
  by (auto simp: convert_case_def emitted_def Let_def supported_def is_open_def is_full_def
      shape_t_defs kernel_defs kernel_call_Inr bind_Inr bspline_four minmax_def
      split: if_splits list.splits)

lemma emitted_no_assemble: "Assemble \<notin> set (emitted self shape)"
  by (simp add: emitted_def Let_def)

lemma convert_loop_state:
  "convert_loop K self shapes a = Inr a' \<Longrightarrow>
     line a' = (line a \<or> list_ex is_open shapes)
     \<and> full a' = full a + int (length (filter is_full shapes))
     \<and> list_all supported shapes
     \<and> sketch a' = sketch a @ concat (map (emitted self) shapes)"
proof (induction shapes arbitrary: a)
  case Nil
  then show ?case by simp
next
  case (Cons shape shapes)
  from Cons.prems obtain b where b: "convert_case K self a shape = Inr b"
    and rest: "convert_loop K self shapes b = Inr a'"
    by (auto simp: bind_Inr)
  from Cons.IH[OF rest] convert_case_state[OF b] show ?case by auto
qed

lemma convert_loop_append:
  "convert_loop K self (xs @ ys) a = bind (convert_loop K self xs a) (convert_loop K self ys)"
proof (induction xs arbitrary: a)
  case Nil
  show ?case by (simp add: bind_simps)
next
  case (Cons x xs)
  show ?case by (cases "convert_case K self a x") (simp_all add: bind_simps Cons.IH)
qed

lemma convert_case_error:
  "convert_case K self a shape = Inl e \<Longrightarrow>
     (e = NotImplementedError (GetShape shape) \<and> \<not> supported shape)
     \<or> (e = IndexError \<and> GetShape shape = SHAPE_T_POLY \<and> GetPolyShape shape = [])
     \<or> e = KernelError"
  by (auto simp: supported_def is_open_def is_full_def convert_case_def Let_def
      bspline_four bind_Inl kernel_defs kernel_call_Inl kernel_call_Inr minmax_def shape_t_defs
      split: list.splits if_splits)

lemma convert_loop_error:
  "convert_loop K self shapes a = Inl (NotImplementedError k) \<Longrightarrow> \<not> list_all supported shapes"
proof (induction shapes arbitrary: a)
  case Nil
  then show ?case by simp
next
  case (Cons shape shapes)
  show ?case
  proof (cases "convert_case K self a shape")
    case (Inl e)
    with Cons.prems have "e = NotImplementedError k" by (simp add: bind_simps)
    with Inl convert_case_error[of K self a shape e] show ?thesis by auto
  next
    case (Inr b)
    with Cons.prems have "convert_loop K self shapes b = Inl (NotImplementedError k)"
      by (simp add: bind_simps)
    from Cons.IH[OF this] show ?thesis by simp
  qed
qed

lemma warnings_differ: "both_warning \<noteq> many_warning"
  by (simp add: both_warning_def many_warning_def)

subsection \<open>The sample shapes, evaluated\<close>

lemma sample_outline_loop:
  "convert_loop kernel0 board0 sample_outline init =
     Inr \<lparr>sketch = [Segment (0, 0) (2, 0), Segment (2, 0) (2, - 1),
                     Segment (2, - 1) (0, - 1), Segment (0, - 1) (0, 0)],
          line = True, full = 0\<rparr>"
  by code_simp

lemma sample_outline_assemble:
  "kernel0 [Segment (0, 0) (2, 0), Segment (2, 0) (2, - 1),
            Segment (2, - 1) (0, - 1), Segment (0, - 1) (0, 0)] Assemble"
  by code_simp

lemma sample_circle_loop:
  "convert_loop kernel0 board0 [sample_shape SHAPE_T_CIRCLE] init =
     Inr \<lparr>sketch = [Push [(1, - (1 / 2))], Circle (1 / 2)], line = False, full = 1\<rparr>"
  by code_simp

lemma sample_circles_loop:
  "convert_loop kernel0 board0 [sample_shape SHAPE_T_CIRCLE, sample_circle2] init =
     Inr \<lparr>sketch = [Push [(1, - (1 / 2))], Circle (1 / 2), Push [(4, - (1 / 2))], Circle 1],
          line = False, full = 2\<rparr>"
  by code_simp

lemma sample_mixed_loop:
  "convert_loop kernel0 board0
     [sample_shape SHAPE_T_CIRCLE, sample_shape SHAPE_T_CIRCLE, sample_shape SHAPE_T_SEGMENT] init =
     Inr \<lparr>sketch = [Push [(1, - (1 / 2))], Circle (1 / 2), Push [(1, - (1 / 2))], Circle (1 / 2),
                     Segment (0, 0) (2, - 1)],
          line = True, full = 2\<rparr>"
  by code_simp

lemma sample_radius: "iu2mm 500000 = 1 / 2"
  by code_simp

lemma sample_center: "p board0 \<lparr>wx = 101000000, wy = 80500000\<rparr> = (1, - (1 / 2))"
  by code_simp

section \<open>The branch of the result: claim C1\<close>

text \<open>
  Claim C1, as stated: for every sequence of supported shapes the result is the assembled
  chain if an open shape (arc, segment, cubic curve) occurred, and the sketch as it is
  otherwise. It fails for a segment followed by a polygon without vertices: both kinds are
  supported and an open shape occurred, but the call ends with \<open>IndexError\<close> and returns
  neither.
\<close>

theorem convert_shape_branch_counterexample:
  "list_all supported
      [\<lparr>GetShape = SHAPE_T_SEGMENT, GetStart = \<lparr>wx = 0, wy = 0\<rparr>,
        GetEnd = \<lparr>wx = 1000000, wy = 0\<rparr>,
        GetArcMid = \<lparr>wx = 0, wy = 0\<rparr>, GetCenter = \<lparr>wx = 0, wy = 0\<rparr>, GetRadius = 0,
        GetBezierC1 = \<lparr>wx = 0, wy = 0\<rparr>, GetBezierC2 = \<lparr>wx = 0, wy = 0\<rparr>,
        GetPolyShape = []\<rparr>,
       \<lparr>GetShape = SHAPE_T_POLY, GetStart = \<lparr>wx = 0, wy = 0\<rparr>, GetEnd = \<lparr>wx = 0, wy = 0\<rparr>,
        GetArcMid = \<lparr>wx = 0, wy = 0\<rparr>, GetCenter = \<lparr>wx = 0, wy = 0\<rparr>, GetRadius = 0,
        GetBezierC1 = \<lparr>wx = 0, wy = 0\<rparr>, GetBezierC2 = \<lparr>wx = 0, wy = 0\<rparr>,
        GetPolyShape = []\<rparr>]
   \<and> convert_shape kernel0 \<lparr>center = \<lparr>wx = 0, wy = 0\<rparr>\<rparr>
      [\<lparr>GetShape = SHAPE_T_SEGMENT, GetStart = \<lparr>wx = 0, wy = 0\<rparr>,
        GetEnd = \<lparr>wx = 1000000, wy = 0\<rparr>,
        GetArcMid = \<lparr>wx = 0, wy = 0\<rparr>, GetCenter = \<lparr>wx = 0, wy = 0\<rparr>, GetRadius = 0,
        GetBezierC1 = \<lparr>wx = 0, wy = 0\<rparr>, GetBezierC2 = \<lparr>wx = 0, wy = 0\<rparr>,
        GetPolyShape = []\<rparr>,
       \<lparr>GetShape = SHAPE_T_POLY, GetStart = \<lparr>wx = 0, wy = 0\<rparr>, GetEnd = \<lparr>wx = 0, wy = 0\<rparr>,
        GetArcMid = \<lparr>wx = 0, wy = 0\<rparr>, GetCenter = \<lparr>wx = 0, wy = 0\<rparr>, GetRadius = 0,
        GetBezierC1 = \<lparr>wx = 0, wy = 0\<rparr>, GetBezierC2 = \<lparr>wx = 0, wy = 0\<rparr>,
        GetPolyShape = []\<rparr>]
     = ([], Inl IndexError)"
  by code_simp

text \<open>
  Claim C1, amended. When the loop raises, \<open>convert_shape\<close> raises the same error and
  returns no sketch. When the loop completes, every shape of the input is supported, the
  accumulated sketch holds the calls of the shapes in input order and no \<open>assemble\<close>, and
  the outcome is decided by whether an open shape occurred: if one occurred it is the
  outcome of \<open>assemble\<close> on the accumulated sketch (the assembled sketch, or the kernel's
  error), and if none occurred it is the accumulated sketch as it is. The full shapes
  (circle, rect, polygon) of the input play no part in the choice.
\<close>

theorem convert_shape_branch:
  "(case convert_loop K self shapes init of
      Inl e \<Rightarrow> convert_shape K self shapes = ([], Inl e)
    | Inr a \<Rightarrow>
        convert_shape K self shapes =
          (warn a, if list_ex is_open shapes then assemble K (sketch a) else Inr (sketch a))
        \<and> sketch a = concat (map (emitted self) shapes)
        \<and> Assemble \<notin> set (sketch a)
        \<and> list_all supported shapes)"
proof (cases "convert_loop K self shapes init")
  case (Inl e)
  then show ?thesis by (simp add: convert_shape_def)
next
  case (Inr a)
  from convert_loop_state[OF Inr]
  have st: "line a = list_ex is_open shapes" "list_all supported shapes"
    "sketch a = concat (map (emitted self) shapes)"
    by (simp_all add: init_simps)
  have "Assemble \<notin> set (concat (map (emitted self) shapes))"
    by (simp add: emitted_no_assemble)
  with Inr st show ?thesis by (simp add: convert_shape_def)
qed

theorem convert_shape_branch_witness:
  "convert_loop kernel0 board0 sample_outline init =
     Inr \<lparr>sketch = [Segment (0, 0) (2, 0), Segment (2, 0) (2, - 1),
                     Segment (2, - 1) (0, - 1), Segment (0, - 1) (0, 0)],
          line = True, full = 0\<rparr>
   \<and> list_ex is_open sample_outline
   \<and> convert_shape kernel0 board0 sample_outline =
       ([], Inr [Segment (0, 0) (2, 0), Segment (2, 0) (2, - 1),
                 Segment (2, - 1) (0, - 1), Segment (0, - 1) (0, 0), Assemble])"
proof -
  have o: "list_ex is_open sample_outline"
    by (simp add: sample_outline_def sample_segment_def sample_shape_def is_open_def)
  have "convert_shape kernel0 board0 sample_outline =
      ([], assemble kernel0 [Segment (0, 0) (2, 0), Segment (2, 0) (2, - 1),
                             Segment (2, - 1) (0, - 1), Segment (0, - 1) (0, 0)])"
    using convert_shape_branch[of kernel0 board0 sample_outline] o
    unfolding sample_outline_loop by (simp add: warn_def)
  then show ?thesis
    using o sample_outline_assemble sample_outline_loop
    by (simp add: assemble_def kernel_call_def)
qed

section \<open>Errors of the assembler: claims C3 and C10\<close>

text \<open>
  Claim C3, as stated: every input with a shape of an unsupported kind fails at the first
  such shape with the error naming that kind. It fails for a polygon without vertices
  followed by a shape of kind 6: the call ends at the polygon with \<open>IndexError\<close>.
\<close>

theorem unsupported_shape_error_counterexample:
  "\<not> supported
       \<lparr>GetShape = 6, GetStart = \<lparr>wx = 0, wy = 0\<rparr>, GetEnd = \<lparr>wx = 0, wy = 0\<rparr>,
        GetArcMid = \<lparr>wx = 0, wy = 0\<rparr>, GetCenter = \<lparr>wx = 0, wy = 0\<rparr>, GetRadius = 0,
        GetBezierC1 = \<lparr>wx = 0, wy = 0\<rparr>, GetBezierC2 = \<lparr>wx = 0, wy = 0\<rparr>,
        GetPolyShape = []\<rparr>
   \<and> convert_shape kernel0 \<lparr>center = \<lparr>wx = 0, wy = 0\<rparr>\<rparr>
      [\<lparr>GetShape = SHAPE_T_POLY, GetStart = \<lparr>wx = 0, wy = 0\<rparr>, GetEnd = \<lparr>wx = 0, wy = 0\<rparr>,
        GetArcMid = \<lparr>wx = 0, wy = 0\<rparr>, GetCenter = \<lparr>wx = 0, wy = 0\<rparr>, GetRadius = 0,
        GetBezierC1 = \<lparr>wx = 0, wy = 0\<rparr>, GetBezierC2 = \<lparr>wx = 0, wy = 0\<rparr>,
        GetPolyShape = []\<rparr>,
       \<lparr>GetShape = 6, GetStart = \<lparr>wx = 0, wy = 0\<rparr>, GetEnd = \<lparr>wx = 0, wy = 0\<rparr>,
        GetArcMid = \<lparr>wx = 0, wy = 0\<rparr>, GetCenter = \<lparr>wx = 0, wy = 0\<rparr>, GetRadius = 0,
        GetBezierC1 = \<lparr>wx = 0, wy = 0\<rparr>, GetBezierC2 = \<lparr>wx = 0, wy = 0\<rparr>,
        GetPolyShape = []\<rparr>]
     = ([], Inl IndexError)
   \<and> Inl IndexError \<noteq> (Inl (NotImplementedError 6) :: error + Sketch)"
  by code_simp

text \<open>
  Claim C3, amended. Every input with a shape of an unsupported kind fails, so no sketch
  is returned. If the shapes before such a shape are processed without error, the call
  fails at that shape with \<open>NotImplementedError\<close> carrying its kind, and no warning is
  logged. For an input of supported kinds only, this error is never raised.
\<close>

theorem unsupported_shape_error:
  "(\<not> list_all supported shapes \<longrightarrow> (\<exists>e. convert_shape K self shapes = ([], Inl e)))
   \<and> ((\<exists>b. convert_loop K self pre init = Inr b) \<and> \<not> supported shape \<longrightarrow>
        convert_shape K self (pre @ shape # post)
          = ([], Inl (NotImplementedError (GetShape shape))))
   \<and> (list_all supported shapes \<longrightarrow>
        snd (convert_shape K self shapes) \<noteq> Inl (NotImplementedError k))"
proof (intro conjI impI)
  assume ns: "\<not> list_all supported shapes"
  show "\<exists>e. convert_shape K self shapes = ([], Inl e)"
  proof (cases "convert_loop K self shapes init")
    case (Inl e)
    then show ?thesis by (simp add: convert_shape_def)
  next
    case (Inr a)
    from convert_loop_state[OF Inr] ns show ?thesis by simp
  qed
next
  assume h: "(\<exists>b. convert_loop K self pre init = Inr b) \<and> \<not> supported shape"
  then obtain b where b: "convert_loop K self pre init = Inr b" by auto
  have "convert_loop K self (pre @ shape # post) init
      = Inl (NotImplementedError (GetShape shape))"
    using h b by (simp add: convert_loop_append bind_simps convert_case_unsupported)
  then show "convert_shape K self (pre @ shape # post)
      = ([], Inl (NotImplementedError (GetShape shape)))"
    by (simp add: convert_shape_def)
next
  assume s: "list_all supported shapes"
  show "snd (convert_shape K self shapes) \<noteq> Inl (NotImplementedError k)"
  proof (cases "convert_loop K self shapes init")
    case (Inl e)
    with convert_loop_error[of K self shapes init k] s have "e \<noteq> NotImplementedError k"
      by auto
    with Inl show ?thesis by (simp add: convert_shape_def)
  next
    case (Inr a)
    then show ?thesis
      by (simp add: convert_shape_def assemble_def kernel_call_def)
  qed
qed

theorem unsupported_shape_error_witness:
  "\<not> list_all supported [sample_shape 6]
   \<and> (\<exists>e. convert_shape kernel0 board0 [sample_shape 6] = ([], Inl e))
   \<and> (\<exists>b. convert_loop kernel0 board0 [sample_shape SHAPE_T_CIRCLE] init = Inr b)
   \<and> \<not> supported (sample_shape 6)
   \<and> convert_shape kernel0 board0
        ([sample_shape SHAPE_T_CIRCLE] @ sample_shape 6 # [sample_shape SHAPE_T_SEGMENT])
      = ([], Inl (NotImplementedError 6))
   \<and> list_all supported [sample_shape SHAPE_T_CIRCLE]
   \<and> snd (convert_shape kernel0 board0 [sample_shape SHAPE_T_CIRCLE])
        \<noteq> Inl (NotImplementedError 6)"
  using unsupported_shape_error[of "[sample_shape 6]" kernel0 board0
      "[sample_shape SHAPE_T_CIRCLE]" "sample_shape 6" "[sample_shape SHAPE_T_SEGMENT]" 6]
    unsupported_shape_error[of "[sample_shape SHAPE_T_CIRCLE]" kernel0 board0 "[]"
      "sample_shape 6" "[]" 6]
    sample_circle_loop
  by (simp add: supported_def is_open_def is_full_def shape_t_defs sample_shape_def
      del: convert_loop.simps)

text \<open>
  Claim C10. For a polygon with no vertex the loop body fails with \<open>IndexError\<close>, raised
  by \<open>points[0]\<close>. So \<open>convert_shape\<close> ends with an error that is not the unsupported-shape
  error on inputs whose kinds are all supported.
\<close>

theorem empty_polygon_index_error:
  assumes "GetShape shape = SHAPE_T_POLY" and "GetPolyShape shape = []"
    and "convert_loop K self pre init = Inr b"
  shows "convert_case K self a shape = Inl IndexError
    \<and> convert_shape K self (pre @ shape # post) = ([], Inl IndexError)
    \<and> (list_all supported post \<longrightarrow> list_all supported (pre @ shape # post))
    \<and> IndexError \<noteq> NotImplementedError k"
proof -
  have c: "convert_case K self c shape = Inl IndexError" for c
    using assms(1,2) by (simp add: convert_case_def Let_def shape_t_defs)
  have "convert_shape K self (pre @ shape # post) = ([], Inl IndexError)"
    using assms(3) by (simp add: convert_shape_def convert_loop_append bind_simps c)
  moreover have "supported shape"
    using assms(1) by (simp add: supported_def is_full_def)
  moreover have "list_all supported pre"
    using convert_loop_state[OF assms(3)] by simp
  ultimately show ?thesis using c by simp
qed

theorem empty_polygon_index_error_witness:
  "GetShape ((sample_shape SHAPE_T_POLY)\<lparr>GetPolyShape := []\<rparr>) = SHAPE_T_POLY
   \<and> GetPolyShape ((sample_shape SHAPE_T_POLY)\<lparr>GetPolyShape := []\<rparr>) = []
   \<and> convert_loop kernel0 board0 [sample_shape SHAPE_T_CIRCLE] init =
       Inr \<lparr>sketch = [Push [(1, - (1 / 2))], Circle (1 / 2)], line = False, full = 1\<rparr>
   \<and> list_all supported [sample_shape SHAPE_T_SEGMENT]
   \<and> convert_shape kernel0 board0
        ([sample_shape SHAPE_T_CIRCLE] @ (sample_shape SHAPE_T_POLY)\<lparr>GetPolyShape := []\<rparr>
          # [sample_shape SHAPE_T_SEGMENT])
      = ([], Inl IndexError)
   \<and> list_all supported
        ([sample_shape SHAPE_T_CIRCLE] @ (sample_shape SHAPE_T_POLY)\<lparr>GetPolyShape := []\<rparr>
          # [sample_shape SHAPE_T_SEGMENT])"
  using empty_polygon_index_error[of "(sample_shape SHAPE_T_POLY)\<lparr>GetPolyShape := []\<rparr>"
      kernel0 board0 "[sample_shape SHAPE_T_CIRCLE]" _ init "[sample_shape SHAPE_T_SEGMENT]" 0,
      OF _ _ sample_circle_loop]
    sample_circle_loop
  by (simp add: supported_def is_open_def is_full_def shape_t_defs sample_shape_def
      del: convert_loop.simps)

section \<open>Warnings: claim C7\<close>

text \<open>
  Claim C7, as stated: the two warnings are logged under their conditions and a sketch is
  still returned. It fails for two circles followed by one open segment: both warnings
  are logged, then \<open>assemble\<close> is called on a single segment, which forms no face, and
  the call ends with the kernel's error instead of a sketch.
\<close>

theorem warnings_emitted_counterexample:
  "convert_shape kernel0 board0
     [sample_shape SHAPE_T_CIRCLE, sample_shape SHAPE_T_CIRCLE, sample_shape SHAPE_T_SEGMENT]
   = ([both_warning, many_warning], Inl KernelError)"
proof -
  have "\<not> kernel0 [Push [(1, - (1 / 2))], Circle (1 / 2), Push [(1, - (1 / 2))], Circle (1 / 2),
                    Segment (0, 0) (2, - 1)] Assemble"
    by code_simp
  then show ?thesis
    unfolding convert_shape_def sample_mixed_loop
    by (simp add: warn_def assemble_def kernel_call_def)
qed

text \<open>
  Claim C7, amended. When the loop has processed all shapes, \<open>convert_shape\<close> logs the
  warning on mixed shapes exactly when \<open>full > 0\<close> and \<open>line\<close> hold, and the warning on
  several complete shapes exactly when \<open>full > 1\<close>, each at most once and no other;
  \<open>full\<close> is the number of full shapes of the input and \<open>line\<close> says whether an open
  shape occurred. Neither warning is raised: the outcome is the one the call has without
  them, the accumulated sketch if no open shape occurred and the outcome of \<open>assemble\<close>
  otherwise. A sketch is returned if no open shape occurred or the kernel carries out
  \<open>assemble\<close>.
\<close>

theorem warnings_emitted:
  assumes "convert_loop K self shapes init = Inr a"
  shows "\<exists>ws r. convert_shape K self shapes = (ws, r)
      \<and> (both_warning \<in> set ws \<longleftrightarrow> 0 < full a \<and> line a)
      \<and> (many_warning \<in> set ws \<longleftrightarrow> 1 < full a)
      \<and> distinct ws \<and> set ws \<subseteq> {both_warning, many_warning}
      \<and> full a = int (length (filter is_full shapes))
      \<and> line a = list_ex is_open shapes
      \<and> r = (if line a then assemble K (sketch a) else Inr (sketch a))
      \<and> (\<not> line a \<or> K (sketch a) Assemble \<longrightarrow> (\<exists>sk. r = Inr sk))"
  using assms convert_loop_state[OF assms] warnings_differ
  by (auto simp: convert_shape_def warn_def init_simps assemble_def kernel_call_def)

theorem warnings_emitted_witness:
  "convert_loop kernel0 board0 [sample_shape SHAPE_T_CIRCLE, sample_circle2] init =
     Inr \<lparr>sketch = [Push [(1, - (1 / 2))], Circle (1 / 2), Push [(4, - (1 / 2))], Circle 1],
          line = False, full = 2\<rparr>
   \<and> convert_shape kernel0 board0 [sample_shape SHAPE_T_CIRCLE, sample_circle2] =
       ([many_warning],
        Inr [Push [(1, - (1 / 2))], Circle (1 / 2), Push [(4, - (1 / 2))], Circle 1])"
proof -
  have "convert_shape kernel0 board0 [sample_shape SHAPE_T_CIRCLE, sample_circle2] =
       ([many_warning],
        Inr [Push [(1, - (1 / 2))], Circle (1 / 2), Push [(4, - (1 / 2))], Circle 1])"
    using warnings_emitted[OF sample_circles_loop]
    unfolding convert_shape_def sample_circles_loop by (simp add: warn_def)
  then show ?thesis using sample_circles_loop by (rule conjI[rotated])
qed

section \<open>Single shapes: claims C6 and C8\<close>

text \<open>
  Claim C8, as stated: an input of one circle gives the sketch with that circle. It fails
  for a circle of radius 0, which the kernel does not build: the call ends with the
  kernel's error and returns no sketch.
\<close>

theorem single_circle_counterexample:
  "convert_shape kernel0 board0 [(sample_shape SHAPE_T_CIRCLE)\<lparr>GetRadius := 0\<rparr>]
   = ([], Inl KernelError)"
  by (simp add: convert_shape_def convert_case_def Let_def shape_t_defs sample_shape_def
      bind_simps init_def circle_def push_def kernel_call_def iu2mm_0)

text \<open>
  Claim C8, amended. For an input of one circle of radius \<open>R\<close> and center \<open>C\<close> that the
  kernel builds (it builds none of radius 0), \<open>convert_shape\<close> returns the sketch with one
  circle of radius \<open>iu2mm R\<close> placed at \<open>p C\<close>, without \<open>assemble\<close>; the loop ends with
  \<open>full = 1\<close> and \<open>line = False\<close>, and no warning is logged. When the kernel does not
  build the circle, the call ends with the kernel's error.
\<close>

theorem single_circle:
  assumes "GetShape shape = SHAPE_T_CIRCLE"
  shows "(K [Push [p self (GetCenter shape)]] (Circle (iu2mm (GetRadius shape))) \<longrightarrow>
          convert_loop K self [shape] init =
            Inr \<lparr>sketch = [Push [p self (GetCenter shape)], Circle (iu2mm (GetRadius shape))],
                 line = False, full = 1\<rparr>
          \<and> convert_shape K self [shape] =
            ([], Inr [Push [p self (GetCenter shape)], Circle (iu2mm (GetRadius shape))]))
    \<and> (\<not> K [Push [p self (GetCenter shape)]] (Circle (iu2mm (GetRadius shape))) \<longrightarrow>
          convert_shape K self [shape] = ([], Inl KernelError))"
  using assms
  by (simp add: convert_shape_def convert_case_def Let_def shape_t_defs bind_simps init_def
      warn_def push_def circle_def kernel_call_def)

theorem single_circle_witness:
  "GetShape (sample_shape SHAPE_T_CIRCLE) = SHAPE_T_CIRCLE
   \<and> kernel0 [Push [p board0 (GetCenter (sample_shape SHAPE_T_CIRCLE))]]
        (Circle (iu2mm (GetRadius (sample_shape SHAPE_T_CIRCLE))))
   \<and> convert_shape kernel0 board0 [sample_shape SHAPE_T_CIRCLE] =
       ([], Inr [Push [p board0 \<lparr>wx = 101000000, wy = 80500000\<rparr>], Circle (iu2mm 500000)])"
  using single_circle[of "sample_shape SHAPE_T_CIRCLE" kernel0 board0]
  by (simp add: sample_shape_def sample_radius)

text \<open>
  Claim C6. For a rect, the loop body places at the image of the shape's center a
  rectangle whose width and height are the extents of the two corners on each axis (the
  greater coordinate minus the smaller one, converted to millimeters). Exchanging the two
  corners, or replacing them by the two other corners of the same rectangle, gives the
  same result.
\<close>

theorem rect_extrema:
  assumes "GetShape shape = SHAPE_T_RECT"
  shows "convert_case K self a shape =
      Inr (a\<lparr>full := full a + 1,
             sketch := sketch a @
               [Push [p self (GetCenter shape)],
                Rect (iu2mm (max (wx (GetStart shape)) (wx (GetEnd shape))
                             - min (wx (GetStart shape)) (wx (GetEnd shape))))
                     (iu2mm (max (wy (GetStart shape)) (wy (GetEnd shape))
                             - min (wy (GetStart shape)) (wy (GetEnd shape)))),
                Reset]\<rparr>)
    \<and> convert_case K self a (shape\<lparr>GetStart := GetEnd shape, GetEnd := GetStart shape\<rparr>)
        = convert_case K self a shape
    \<and> convert_case K self a
          (shape\<lparr>GetStart := \<lparr>wx = wx (GetStart shape), wy = wy (GetEnd shape)\<rparr>,
                 GetEnd := \<lparr>wx = wx (GetEnd shape), wy = wy (GetStart shape)\<rparr>\<rparr>)
        = convert_case K self a shape
    \<and> convert_case K self a
          (shape\<lparr>GetStart := \<lparr>wx = wx (GetEnd shape), wy = wy (GetStart shape)\<rparr>,
                 GetEnd := \<lparr>wx = wx (GetStart shape), wy = wy (GetEnd shape)\<rparr>\<rparr>)
        = convert_case K self a shape"
  using assms
  by (simp add: convert_case_def Let_def shape_t_defs minmax_def push_def rect_def reset_def
      min.commute max.commute)

theorem rect_extrema_witness:
  "GetShape (sample_shape SHAPE_T_RECT) = SHAPE_T_RECT
   \<and> convert_case kernel0 board0 init (sample_shape SHAPE_T_RECT) =
       Inr \<lparr>sketch = [Push [p board0 \<lparr>wx = 101000000, wy = 80500000\<rparr>],
                       Rect (iu2mm 2000000) (iu2mm 1000000), Reset],
            line = False, full = 1\<rparr>
   \<and> convert_case kernel0 board0 init
        ((sample_shape SHAPE_T_RECT)\<lparr>GetStart := \<lparr>wx = 102000000, wy = 81000000\<rparr>,
                                     GetEnd := \<lparr>wx = 100000000, wy = 80000000\<rparr>\<rparr>)
      = convert_case kernel0 board0 init (sample_shape SHAPE_T_RECT)"
  using rect_extrema[of "sample_shape SHAPE_T_RECT" kernel0 board0 init]
  by (simp add: sample_shape_def init_def)

end
